theory Spec2Isabelle
  imports Main
begin

section \<open>Python strings\<close>

text \<open>
  A Python \<open>str\<close> is a sequence of Unicode code points, and slicing, \<open>strip\<close>,
  \<open>splitlines\<close> and \<open>in\<close> all work on code points. A code point is a natural number
  here and a string is a list of them; \<open>ascii\<close> turns an ASCII literal of the
  source into such a list.
\<close>

type_synonym codepoint = nat
type_synonym pystr = "codepoint list"

definition ascii :: "string \<Rightarrow> pystr" where
  "ascii s = map of_char s"

text \<open>
  \<open>str.isspace\<close> for one code point: the table of CPython's
  \<open>_PyUnicode_IsWhitespace\<close>. Calling \<open>strip()\<close> with no argument removes exactly
  these from both ends.
\<close>

definition is_space :: "codepoint \<Rightarrow> bool" where
  "is_space c \<longleftrightarrow>
     (9 \<le> c \<and> c \<le> 13) \<or> (28 \<le> c \<and> c \<le> 32) \<or> c = 133 \<or> c = 160 \<or> c = 5760 \<or>
     (8192 \<le> c \<and> c \<le> 8202) \<or> c = 8232 \<or> c = 8233 \<or> c = 8239 \<or> c = 8287 \<or>
     c = 12288"

definition strip :: "pystr \<Rightarrow> pystr" where
  "strip s = rev (dropWhile is_space (rev (dropWhile is_space s)))"

text \<open>\<open>s.rstrip(chars)\<close>: every trailing code point that occurs in \<open>chars\<close> goes.\<close>

definition rstrip :: "pystr \<Rightarrow> pystr \<Rightarrow> pystr" where
  "rstrip s chars = rev (dropWhile (\<lambda>c. c \<in> set chars) (rev s))"

text \<open>\<open>s.startswith(p)\<close>.\<close>

fun startswith :: "pystr \<Rightarrow> pystr \<Rightarrow> bool" where
  "startswith s [] = True"
| "startswith [] (p # ps) = False"
| "startswith (c # cs) (p # ps) = (c = p \<and> startswith cs ps)"

text \<open>\<open>sub in s\<close>: \<open>sub\<close> occurs in \<open>s\<close> as a contiguous substring.\<close>

fun contains :: "pystr \<Rightarrow> pystr \<Rightarrow> bool" where
  "contains sub [] = (sub = [])"
| "contains sub (c # cs) = (startswith (c # cs) sub \<or> contains sub cs)"

text \<open>
  \<open>s.split(sep, 1)\<close> for a separator of one code point: at most one split, at
  the first occurrence; without an occurrence the list holds \<open>s\<close> alone.
\<close>

definition split1 :: "pystr \<Rightarrow> codepoint \<Rightarrow> pystr list" where
  "split1 s sep =
     (if sep \<in> set s
      then [takeWhile (\<lambda>c. c \<noteq> sep) s, tl (dropWhile (\<lambda>c. c \<noteq> sep) s)]
      else [s])"

text \<open>
  \<open>str.splitlines()\<close>. The line boundaries are LF, VT, FF, CR, FS, GS, RS, NEL,
  LS and PS; CR followed by LF is one boundary; a boundary at the very end opens
  no further line. \<open>splitlines_from cur s\<close> carries the current line reversed.
\<close>

definition is_linebreak :: "codepoint \<Rightarrow> bool" where
  "is_linebreak c \<longleftrightarrow>
     (10 \<le> c \<and> c \<le> 13) \<or> (28 \<le> c \<and> c \<le> 30) \<or> c = 133 \<or> c = 8232 \<or> c = 8233"

fun splitlines_from :: "pystr \<Rightarrow> pystr \<Rightarrow> pystr list" where
  "splitlines_from cur [] = (if cur = [] then [] else [rev cur])"
| "splitlines_from cur [c] =
     (if is_linebreak c then [rev cur] else [rev (c # cur)])"
| "splitlines_from cur (c # d # ds) =
     (if c = 13 \<and> d = 10 then rev cur # splitlines_from [] ds
      else if is_linebreak c then rev cur # splitlines_from [] (d # ds)
      else splitlines_from (c # cur) (d # ds))"

definition splitlines :: "pystr \<Rightarrow> pystr list" where
  "splitlines s = splitlines_from [] s"

text \<open>\<open>str(n)\<close> for an integer, as the f-string \<open>f'HTTP {status}'\<close> formats it.\<close>

fun digits :: "nat \<Rightarrow> pystr" where
  "digits n = (if n < 10 then [48 + n] else digits (n div 10) @ [48 + n mod 10])"

declare digits.simps [simp del]

definition str_int :: "int \<Rightarrow> pystr" where
  "str_int i = (if i < 0 then 45 # digits (nat (- i)) else digits (nat i))"

section \<open>Exceptions, the file and the world\<close>

text \<open>
  Every exception that can leave a function of the script is a value. The script
  catches \<open>urllib.error.HTTPError\<close> and nothing else, so one constructor stands
  for each place where something else can be raised.
\<close>

datatype exn =
    ReadTextError \<comment> \<open>\<open>path.read_text()\<close> raised: no such file, no permission, undecodable bytes\<close>
  | UnpackError \<comment> \<open>\<open>k, v = ...\<close> on a list that has not exactly two elements\<close>
  | TransportError \<comment> \<open>anything but an \<open>HTTPError\<close> raised while the request is built, sent or read\<close>

text \<open>What the script can see of \<open>.env\<close>: nothing, a file it cannot read, or its text.\<close>

datatype env_file = Absent | Unreadable | Readable pystr

definition path_exists :: "env_file \<Rightarrow> bool" where
  "path_exists f \<longleftrightarrow> f \<noteq> Absent"

definition read_text :: "env_file \<Rightarrow> exn + pystr" where
  "read_text f = (case f of Readable text \<Rightarrow> Inr text | _ \<Rightarrow> Inl ReadTextError)"

text \<open>
  The payload dictionaries of the script hold integers and strings; a dictionary
  literal keeps its insertion order, so a payload is an association list. A
  request holds the payload as it is: the script sends its JSON text, encoded in
  UTF-8, and looks at that text nowhere. The headers are those of the three
  \<open>add_header\<close> calls, in their order.
\<close>

datatype jval = JInt int | JStr pystr

type_synonym payload = "(pystr \<times> jval) list"

record request =
  req_url :: pystr
  req_method :: pystr
  req_data :: payload
  req_headers :: "(pystr \<times> pystr) list"

text \<open>
  What \<open>urllib\<close> does with a request is outside the script. It is a parameter: the
  network maps the number of calls made before and the request to an outcome.
  The body is the text after \<open>decode('utf-8', 'ignore')\<close>, which cannot fail;
  \<open>None\<close> says that reading the body raised. The \<open>timeout=20\<close> of \<open>urlopen\<close>
  bounds the wait: a call that runs into it ends as a failure.
\<close>

datatype outcome =
    Responded int "pystr option" \<comment> \<open>\<open>urlopen\<close> returned: \<open>resp.status\<close> and the body read\<close>
  | HTTPError int "pystr option" \<comment> \<open>\<open>urlopen\<close> raised \<open>HTTPError\<close>: \<open>e.code\<close> and the body read\<close>
  | Failed \<comment> \<open>any other exception: bad URL, DNS, refused connection, timeout\<close>

type_synonym network = "nat \<Rightarrow> request \<Rightarrow> outcome"

text \<open>The effects of a run: the strings printed and the requests handed to \<open>urllib\<close>, in order.\<close>

record world =
  stdout :: "pystr list"
  rpc_calls :: "request list"

definition print :: "pystr \<Rightarrow> world \<Rightarrow> world" where
  "print s w = w\<lparr>stdout := stdout w @ [s]\<rparr>"

section \<open>The environment loader\<close>

text \<open>The loop of \<open>load_env\<close> over the lines, with the dictionary \<open>env\<close> as accumulator.\<close>

fun load_lines :: "(pystr \<rightharpoonup> pystr) \<Rightarrow> pystr list \<Rightarrow> exn + (pystr \<rightharpoonup> pystr)" where
  "load_lines env [] = Inr env"
| "load_lines env (line # rest) =
     (let s = strip line in
      if s = [] \<or> startswith s (ascii ''#'') \<or> \<not> contains (ascii ''='') s
      then load_lines env rest
      else (case split1 s (of_char CHR ''='') of
              [k, v] \<Rightarrow> load_lines (env(strip k \<mapsto> strip v)) rest
            | _ \<Rightarrow> Inl UnpackError))"

definition load_env :: "env_file \<Rightarrow> exn + (pystr \<rightharpoonup> pystr)" where
  "load_env path =
     (case read_text path of
        Inl e \<Rightarrow> Inl e
      | Inr text \<Rightarrow> load_lines Map.empty (splitlines text))"

section \<open>The RPC caller\<close>

text \<open>Line 19 of the script: \<open>url.rstrip('/') + '/rest/v1/rpc/record_test_and_sync_stats'\<close>.\<close>

definition rpc_path :: pystr where
  "rpc_path = ascii ''/rest/v1/rpc/record_test_and_sync_stats''"

definition endpoint :: "pystr \<Rightarrow> pystr" where
  "endpoint url = rstrip url (ascii ''/'') @ rpc_path"

text \<open>
  \<open>call_rpc\<close>: the request is built and handed to the network once. A response and
  an \<open>HTTPError\<close> both give the pair of status and body; everything else leaves
  the function as an exception.
\<close>

definition build_request :: "pystr \<Rightarrow> pystr \<Rightarrow> payload \<Rightarrow> request" where
  "build_request url key payload =
     \<lparr>req_url = endpoint url,
      req_method = ascii ''POST'',
      req_data = payload,
      req_headers =
        [(ascii ''apikey'', key),
         (ascii ''Authorization'', ascii ''Bearer '' @ key),
         (ascii ''Content-Type'', ascii ''application/json'')]\<rparr>"

definition call_rpc ::
  "network \<Rightarrow> pystr \<Rightarrow> pystr \<Rightarrow> payload \<Rightarrow> world \<Rightarrow> (exn + int \<times> pystr) \<times> world" where
  "call_rpc net url key payload w =
     (let req = build_request url key payload;
          w' = w\<lparr>rpc_calls := rpc_calls w @ [req]\<rparr>
      in case net (length (rpc_calls w)) req of
           Responded status (Some body) \<Rightarrow> (Inr (status, body), w')
         | Responded status None \<Rightarrow> (Inl TransportError, w')
         | HTTPError code (Some body) \<Rightarrow> (Inr (code, body), w')
         | HTTPError code None \<Rightarrow> (Inl TransportError, w')
         | Failed \<Rightarrow> (Inl TransportError, w'))"

section \<open>The report driver\<close>

text \<open>
  The strings \<open>main\<close> prints. Three of them begin with a symbol outside ASCII,
  given by its code points: U+274C (10060) the cross mark, U+2705 (9989) the
  check mark, and U+26A0 U+FE0F (9888, 65039) the warning sign. The header of
  step 2 begins with a line feed.
\<close>

definition msg_no_env :: pystr where
  "msg_no_env = 10060 # ascii '' .env not found''"

definition msg_missing_key :: pystr where
  "msg_missing_key = 10060 # ascii '' SUPABASE_URL or SUPABASE_ANON_KEY missing in .env''"

definition msg_step1 :: pystr where
  "msg_step1 = ascii ''== Step 1: Reachability / function existence check ==''"

definition phrase_not_found :: pystr where
  "phrase_not_found = ascii ''Could not find the function public.record_test_and_sync_stats''"

definition msg_not_deployed :: pystr where
  "msg_not_deployed = 10060 # ascii '' RPC function signature not deployed as expected''"

definition msg_callable :: pystr where
  "msg_callable = 9989 # ascii '' RPC endpoint exists and signature is callable''"

definition msg_step2 :: pystr where
  "msg_step2 =
     10 # ascii ''== Step 2: Historical-date rejection check (server-side guard) ==''"

definition phrase_guard :: pystr where
  "phrase_guard = ascii ''Cannot modify historical stats for date''"

definition msg_guard_active :: pystr where
  "msg_guard_active = 9989 # ascii '' Historical-write guard is active at DB layer''"

definition msg_inconclusive :: pystr where
  "msg_inconclusive =
     [9888, 65039] @ ascii '' Could not prove historical-write guard via anon key path''"

definition msg_reason :: pystr where
  "msg_reason =
     ascii ''   Reason: anon calls may fail before business guard due to auth/RLS constraints.''"

definition http_line :: "int \<Rightarrow> pystr" where
  "http_line status = ascii ''HTTP '' @ str_int status"

definition payload1 :: payload where
  "payload1 =
     [(ascii ''p_test_count'', JInt 1),
      (ascii ''p_correct_count'', JInt 1),
      (ascii ''p_points'', JInt 1),
      (ascii ''p_timezone_offset_hours'', JInt 8),
      (ascii ''p_client_date'', JStr (ascii ''2026-02-14'')),
      (ascii ''p_expected_version'', JInt 0)]"

definition payload2 :: payload where
  "payload2 =
     [(ascii ''p_test_date'', JStr (ascii ''2026-02-13'')),
      (ascii ''p_test_count'', JInt 1),
      (ascii ''p_correct_count'', JInt 1),
      (ascii ''p_points'', JInt 1),
      (ascii ''p_timezone_offset_hours'', JInt 8),
      (ascii ''p_client_date'', JStr (ascii ''2026-02-13'')),
      (ascii ''p_expected_version'', JInt 0)]"

text \<open>
  \<open>not x\<close> for the result of \<open>env.get(...)\<close>: true for \<open>None\<close> and for the empty
  string.
\<close>

definition falsy :: "pystr option \<Rightarrow> bool" where
  "falsy x = (case x of None \<Rightarrow> True | Some s \<Rightarrow> s = [])"

text \<open>
  \<open>main\<close>, from an empty world. The result says whether \<open>main\<close> returned or an
  exception left it; the world holds what had been printed and sent by then.
  Past the check \<open>not url or not anon_key\<close> both values are strings, which the
  \<open>case\<close> on the two lookups makes explicit.
\<close>

definition main :: "env_file \<Rightarrow> network \<Rightarrow> (exn + unit) \<times> world" where
  "main env_path net =
     (let w0 = \<lparr>stdout = [], rpc_calls = []\<rparr> in
      if \<not> path_exists env_path then (Inr (), print msg_no_env w0)
      else
        (case load_env env_path of
           Inl e \<Rightarrow> (Inl e, w0)
         | Inr env \<Rightarrow>
             (case (env (ascii ''SUPABASE_URL''), env (ascii ''SUPABASE_ANON_KEY'')) of
                (Some url, Some anon_key) \<Rightarrow>
                  if falsy (Some url) \<or> falsy (Some anon_key)
                  then (Inr (), print msg_missing_key w0)
                  else
                    (let w1 = print msg_step1 w0 in
                     case call_rpc net url anon_key payload1 w1 of
                       (Inl e, w2) \<Rightarrow> (Inl e, w2)
                     | (Inr (status, body), w2) \<Rightarrow>
                         (let w3 = print (http_line status) w2;
                              w4 = print (take 600 body) w3;
                              w5 = (if contains phrase_not_found body
                                    then print msg_not_deployed w4
                                    else print msg_callable w4);
                              w6 = print msg_step2 w5
                          in case call_rpc net url anon_key payload2 w6 of
                               (Inl e, w7) \<Rightarrow> (Inl e, w7)
                             | (Inr (status2, body2), w7) \<Rightarrow>
                                 (let w8 = print (http_line status2) w7;
                                      w9 = print (take 600 body2) w8
                                  in if contains phrase_guard body2
                                     then (Inr (), print msg_guard_active w9)
                                     else (Inr (), print msg_reason (print msg_inconclusive w9)))))
              | _ \<Rightarrow> (Inr (), print msg_missing_key w0))))"

section \<open>Notions for the properties of the loader\<close>

text \<open>
  A line is well formed when the loop of \<open>load_env\<close> does not skip it, that is
  when the test of line 11 is false; its entry is the pair the loop then stores.
  \<open>entries\<close> lists the entries of a text in the order of its lines.
\<close>

definition well_formed :: "pystr \<Rightarrow> bool" where
  "well_formed line \<longleftrightarrow>
     (let s = strip line
      in \<not> (s = [] \<or> startswith s (ascii ''#'') \<or> \<not> contains (ascii ''='') s))"

definition entry :: "pystr \<Rightarrow> pystr \<times> pystr" where
  "entry line =
     (let s = strip line
      in (strip (takeWhile (\<lambda>c. c \<noteq> of_char CHR ''='') s),
          strip (tl (dropWhile (\<lambda>c. c \<noteq> of_char CHR ''='') s))))"

definition entries :: "pystr \<Rightarrow> (pystr \<times> pystr) list" where
  "entries text = map entry (filter well_formed (splitlines text))"

text \<open>
  The exchange an outcome completes: the pair \<open>call_rpc\<close> returns for it, when
  it returns one.
\<close>

definition completed :: "outcome \<Rightarrow> (int \<times> pystr) option" where
  "completed out =
     (case out of
        Responded status (Some body) \<Rightarrow> Some (status, body)
      | HTTPError code (Some body) \<Rightarrow> Some (code, body)
      | _ \<Rightarrow> None)"

section \<open>Example files and networks\<close>

definition cfg_text :: pystr where
  "cfg_text = ascii ''SUPABASE_URL=u/'' @ [10] @ ascii ''SUPABASE_ANON_KEY = k'' @ [10]"

definition cfg_url_only :: pystr where
  "cfg_url_only = ascii ''SUPABASE_URL=https://x.test''"

definition dup_text :: pystr where
  "dup_text = ascii ''A=1'' @ [10] @ ascii ''B=2'' @ [13, 10] @ ascii ''A=3''"

definition net_down :: network where
  "net_down n req = Failed"

definition net_guarded :: network where
  "net_guarded n req =
     (if n = 0 then Responded 200 (Some (ascii ''ok''))
      else HTTPError 400 (Some (ascii ''Cannot modify historical stats for date 2026-02-13'')))"

definition net_undeployed :: network where
  "net_undeployed n req =
     (if n = 0
      then HTTPError 404
             (Some (ascii ''Could not find the function public.record_test_and_sync_stats(p)''))
      else HTTPError 401 (Some (ascii ''denied'')))"



section \<open>Lemmas about the string operations\<close>

lemma ascii_single: "ascii [c] = [of_char c]"
  by (simp add: ascii_def)

lemma startswith_single: "startswith s [c] \<longleftrightarrow> (\<exists>t. s = c # t)"
  by (cases s) auto

lemma contains_single: "contains [c] s \<longleftrightarrow> c \<in> set s"
  by (induction s) (auto simp: startswith_single)

lemma rstrip_snoc_in: "c \<in> set chars \<Longrightarrow> rstrip (s @ [c]) chars = rstrip s chars"
  by (simp add: rstrip_def)

lemma rstrip_replicate: "c \<in> set chars \<Longrightarrow> rstrip (s @ replicate n c) chars = rstrip s chars"
  by (simp add: rstrip_def dropWhile_append)

lemma rstrip_last: "rstrip s chars = [] \<or> last (rstrip s chars) \<notin> set chars"
proof (cases "dropWhile (\<lambda>c. c \<in> set chars) (rev s)")
  case Nil
  then show ?thesis by (simp add: rstrip_def)
next
  case (Cons x xs)
  then have "x \<notin> set chars"
    using hd_dropWhile [of "\<lambda>c. c \<in> set chars" "rev s"] by auto
  with Cons show ?thesis by (simp add: rstrip_def)
qed








lemma split1_mem:
  "sep \<in> set s \<Longrightarrow>
   split1 s sep = [takeWhile (\<lambda>c. c \<noteq> sep) s, tl (dropWhile (\<lambda>c. c \<noteq> sep) s)]"
  by (simp add: split1_def)

lemma load_lines_step:
  "load_lines env (line # rest) =
     (if well_formed line
      then load_lines (env(fst (entry line) \<mapsto> snd (entry line))) rest
      else load_lines env rest)"
  by (auto simp: well_formed_def entry_def Let_def ascii_single contains_single split1_mem)



lemma load_lines_map_of:
  "load_lines env ls = Inr (env ++ map_of (rev (map entry (filter well_formed ls))))"
proof (induction ls arbitrary: env)
  case Nil
  show ?case by simp
next
  case (Cons line rest)
  obtain a b where ab: "entry line = (a, b)"
    by (cases "entry line")
  let ?M = "map_of (rev (map entry (filter well_formed rest)))"
  show ?case
  proof (cases "well_formed line")
    case True
    have "load_lines env (line # rest) = load_lines (env(a \<mapsto> b)) rest"
      using True ab by (simp add: load_lines_step del: load_lines.simps)
    then have step: "load_lines env (line # rest) = Inr (env(a \<mapsto> b) ++ ?M)"
      by (simp only: Cons.IH)
    have rhs: "map_of (rev (map entry (filter well_formed (line # rest)))) = [a \<mapsto> b] ++ ?M"
      using True ab by simp
    have eq: "env(a \<mapsto> b) ++ ?M = env ++ ([a \<mapsto> b] ++ ?M)"
      by (rule ext) (simp add: map_add_def split: option.split)
    show ?thesis
      by (simp only: step rhs eq)
  next
    case False
    then show ?thesis
      by (simp add: load_lines_step Cons.IH del: load_lines.simps)
  qed
qed

section \<open>Lemmas about the loader, the caller and the driver\<close>

lemma load_env_Readable: "load_env (Readable content) = Inr (map_of (rev (entries content)))"
  by (simp add: load_env_def read_text_def load_lines_map_of entries_def)

lemma call_rpc_eq:
  "call_rpc net url key payload w =
     (case completed (net (length (rpc_calls w)) (build_request url key payload)) of
        Some r \<Rightarrow> Inr r
      | None \<Rightarrow> Inl TransportError,
      w\<lparr>rpc_calls := rpc_calls w @ [build_request url key payload]\<rparr>)"
  by (simp add: call_rpc_def completed_def Let_def split: outcome.split option.split)

lemma main_Absent:
  "main Absent net = (Inr (), \<lparr>stdout = [msg_no_env], rpc_calls = []\<rparr>)"
  by (simp add: main_def path_exists_def print_def)


lemma main_missing:
  assumes "load_env (Readable content) = Inr env"
    and "falsy (env (ascii ''SUPABASE_URL'')) \<or> falsy (env (ascii ''SUPABASE_ANON_KEY''))"
  shows "main (Readable content) net = (Inr (), \<lparr>stdout = [msg_missing_key], rpc_calls = []\<rparr>)"
  using assms
  by (auto simp: main_def path_exists_def print_def falsy_def Let_def split: option.split)

lemma main_run:
  assumes "load_env (Readable content) = Inr env"
    and "env (ascii ''SUPABASE_URL'') = Some url"
    and "env (ascii ''SUPABASE_ANON_KEY'') = Some key"
    and "url \<noteq> []" and "key \<noteq> []"
  shows "main (Readable content) net =
    (case completed (net 0 (build_request url key payload1)) of
       None \<Rightarrow>
         (Inl TransportError,
          \<lparr>stdout = [msg_step1], rpc_calls = [build_request url key payload1]\<rparr>)
     | Some (status, body) \<Rightarrow>
         (case completed (net 1 (build_request url key payload2)) of
            None \<Rightarrow>
              (Inl TransportError,
               \<lparr>stdout = [msg_step1, http_line status, take 600 body,
                         if contains phrase_not_found body then msg_not_deployed else msg_callable,
                         msg_step2],
                rpc_calls = [build_request url key payload1, build_request url key payload2]\<rparr>)
          | Some (status2, body2) \<Rightarrow>
              (Inr (),
               \<lparr>stdout = [msg_step1, http_line status, take 600 body,
                         if contains phrase_not_found body then msg_not_deployed else msg_callable,
                         msg_step2, http_line status2, take 600 body2]
                        @ (if contains phrase_guard body2 then [msg_guard_active]
                           else [msg_inconclusive, msg_reason]),
                rpc_calls = [build_request url key payload1, build_request url key payload2]\<rparr>)))"
  using assms
  by (simp add: main_def path_exists_def print_def falsy_def call_rpc_eq Let_def
      split: option.split prod.split)

section \<open>The example files evaluated\<close>

lemma entries_dup:
  "entries dup_text =
     [(ascii ''A'', ascii ''1''), (ascii ''B'', ascii ''2''), (ascii ''A'', ascii ''3'')]"
  by (simp add: entries_def dup_text_def splitlines_def ascii_def is_linebreak_def well_formed_def
      entry_def strip_def is_space_def)

lemma entries_cfg:
  "entries cfg_text = [(ascii ''SUPABASE_URL'', ascii ''u/''), (ascii ''SUPABASE_ANON_KEY'', ascii ''k'')]"
  by (simp add: entries_def cfg_text_def splitlines_def ascii_def is_linebreak_def well_formed_def
      entry_def strip_def is_space_def)

lemma entries_url_only:
  "entries cfg_url_only = [(ascii ''SUPABASE_URL'', ascii ''https://x.test'')]"
  by (simp add: entries_def cfg_url_only_def splitlines_def ascii_def is_linebreak_def
      well_formed_def entry_def strip_def is_space_def)

lemma load_env_cfg:
  "load_env (Readable cfg_text) =
     Inr [ascii ''SUPABASE_URL'' \<mapsto> ascii ''u/'', ascii ''SUPABASE_ANON_KEY'' \<mapsto> ascii ''k'']"
  by (simp add: load_env_Readable entries_cfg)

lemma cfg_lookup:
  "[ascii ''SUPABASE_URL'' \<mapsto> ascii ''u/'', ascii ''SUPABASE_ANON_KEY'' \<mapsto> ascii ''k'']
     (ascii ''SUPABASE_URL'') = Some (ascii ''u/'')"
  "[ascii ''SUPABASE_URL'' \<mapsto> ascii ''u/'', ascii ''SUPABASE_ANON_KEY'' \<mapsto> ascii ''k'']
     (ascii ''SUPABASE_ANON_KEY'') = Some (ascii ''k'')"
  by (simp_all add: ascii_def)

lemma completed_cases:
  "completed out = Some (status, body) \<longleftrightarrow>
     out = Responded status (Some body) \<or> out = HTTPError status (Some body)"
  by (auto simp: completed_def split: outcome.splits option.splits)

lemma msgs_distinct:
  "msg_no_env \<noteq> msg_missing_key" "msg_not_deployed \<noteq> msg_callable"
  "msg_inconclusive \<noteq> msg_guard_active" "msg_inconclusive \<noteq> msg_callable"
  "msg_inconclusive \<noteq> msg_not_deployed" "msg_inconclusive \<noteq> msg_no_env"
  "msg_inconclusive \<noteq> msg_missing_key"
  by (simp_all add: msg_no_env_def msg_missing_key_def msg_not_deployed_def msg_callable_def
      msg_inconclusive_def msg_guard_active_def ascii_def)

lemma cfg_nonempty: "ascii ''u/'' \<noteq> []" "ascii ''k'' \<noteq> []"
  by (simp_all add: ascii_def)

lemma completed_net_guarded:
  "completed (net_guarded n req) =
     (if n = 0 then Some (200, ascii ''ok'')
      else Some (400, ascii ''Cannot modify historical stats for date 2026-02-13''))"
  by (simp add: net_guarded_def completed_def)

lemma contains_guarded:
  "\<not> contains phrase_not_found (ascii ''ok'')"
  "contains phrase_guard (ascii ''Cannot modify historical stats for date 2026-02-13'')"
  by (simp_all add: phrase_not_found_def phrase_guard_def ascii_def)

lemma contains_undeployed:
  "contains phrase_not_found
     (ascii ''Could not find the function public.record_test_and_sync_stats(p)'')"
  "\<not> contains phrase_guard (ascii ''denied'')"
  by (simp_all add: phrase_not_found_def phrase_guard_def ascii_def)


section \<open>Endpoint construction\<close>

text \<open>
  Claim C6. A base URL and the same URL with one more slash at its end give the
  same endpoint; each endpoint is the base without its trailing slashes followed
  by \<open>/rest/v1/rpc/record_test_and_sync_stats\<close>. Both \<open>https://x.test\<close> and
  \<open>https://x.test/\<close> give \<open>https://x.test/rest/v1/rpc/record_test_and_sync_stats\<close>.
\<close>

theorem endpoint_trailing_slash:
  "endpoint (u @ ascii ''/'') = endpoint u
   \<and> endpoint u = rstrip u (ascii ''/'') @ ascii ''/rest/v1/rpc/record_test_and_sync_stats''
   \<and> endpoint (ascii ''https://x.test'') =
       ascii ''https://x.test/rest/v1/rpc/record_test_and_sync_stats''
   \<and> endpoint (ascii ''https://x.test/'') =
       ascii ''https://x.test/rest/v1/rpc/record_test_and_sync_stats''"
proof -
  have "endpoint (u @ ascii ''/'') = endpoint u"
    by (simp add: endpoint_def ascii_single rstrip_snoc_in)
  moreover have "endpoint u = rstrip u (ascii ''/'') @ ascii ''/rest/v1/rpc/record_test_and_sync_stats''"
    by (simp add: endpoint_def rpc_path_def)
  moreover have "endpoint (ascii ''https://x.test'') =
       ascii ''https://x.test/rest/v1/rpc/record_test_and_sync_stats''"
    by (simp add: endpoint_def rpc_path_def rstrip_def ascii_def)
  moreover have "endpoint (ascii ''https://x.test/'') =
       ascii ''https://x.test/rest/v1/rpc/record_test_and_sync_stats''"
    by (simp add: endpoint_def rpc_path_def rstrip_def ascii_def)
  ultimately show ?thesis by blast
qed

text \<open>
  Claim C10. Base URLs that differ only in the number of slashes at their end
  give the same endpoint: \<open>rstrip\<close> removes all of them, so what is left of the
  base is empty or ends in another code point.
\<close>

theorem endpoint_all_trailing_slashes:
  "endpoint (u @ replicate m (of_char CHR ''/'')) = endpoint (u @ replicate n (of_char CHR ''/''))
   \<and> (rstrip u (ascii ''/'') = [] \<or> last (rstrip u (ascii ''/'')) \<noteq> of_char CHR ''/'')"
proof -
  have "endpoint (u @ replicate j (of_char CHR ''/'')) = endpoint u" for j
    by (simp add: endpoint_def ascii_single rstrip_replicate)
  moreover have "rstrip u (ascii ''/'') = [] \<or> last (rstrip u (ascii ''/'')) \<noteq> of_char CHR ''/''"
    using rstrip_last [of u "ascii ''/''"] by (simp add: ascii_single)
  ultimately show ?thesis by simp
qed

theorem endpoint_all_trailing_slashes_witness:
  "endpoint (ascii ''https://x.test'') = endpoint (ascii ''https://x.test//'')
   \<and> endpoint (ascii ''https://x.test/'') = endpoint (ascii ''https://x.test//'')
   \<and> last (rstrip (ascii ''https://x.test//'') (ascii ''/'')) \<noteq> of_char CHR ''/''"
proof -
  have "endpoint (ascii ''https://x.test'' @ replicate 0 (of_char CHR ''/'')) =
        endpoint (ascii ''https://x.test'' @ replicate 2 (of_char CHR ''/''))"
    using endpoint_all_trailing_slashes [of "ascii ''https://x.test''" 0 2] by blast
  moreover have "endpoint (ascii ''https://x.test'' @ replicate 1 (of_char CHR ''/'')) =
        endpoint (ascii ''https://x.test'' @ replicate 2 (of_char CHR ''/''))"
    using endpoint_all_trailing_slashes [of "ascii ''https://x.test''" 1 2] by blast
  moreover have "rstrip (ascii ''https://x.test//'') (ascii ''/'') \<noteq> []"
    by (simp add: rstrip_def ascii_def)
  then have "last (rstrip (ascii ''https://x.test//'') (ascii ''/'')) \<noteq> of_char CHR ''/''"
    using endpoint_all_trailing_slashes [of "ascii ''https://x.test//''" 0 0] by blast
  ultimately show ?thesis
    by (simp add: ascii_def numeral_2_eq_2)
qed

section \<open>The loader, line by line\<close>





section \<open>The loader on a whole file\<close>

text \<open>
  Claim C7. \<open>load_env\<close> returns a mapping for every text. It has as many keys
  as the well-formed lines have different keys, so N lines with N distinct keys
  give size N; and a key is mapped to the value of its last well-formed line.
\<close>

theorem load_env_size_and_last:
  "\<exists>m. load_env (Readable content) = Inr m
     \<and> card (dom m) = card (fst ` set (entries content))
     \<and> (distinct (map fst (entries content)) \<longrightarrow> card (dom m) = length (entries content))
     \<and> (\<forall>before k v after.
           entries content = before @ (k, v) # after \<and> k \<notin> fst ` set after \<longrightarrow> m k = Some v)"
proof -
  let ?m = "map_of (rev (entries content))"
  have m: "load_env (Readable content) = Inr ?m"
    by (simp add: load_env_def read_text_def load_lines_map_of entries_def)
  have d: "dom ?m = fst ` set (entries content)"
    by (simp add: dom_map_of_conv_image_fst)
  have "card (dom ?m) = length (entries content)" if "distinct (map fst (entries content))"
    using that d distinct_card [of "map fst (entries content)"] by simp
  moreover have "?m k = Some v"
    if "entries content = before @ (k, v) # after \<and> k \<notin> fst ` set after" for before k v after
  proof -
    have "map_of (rev after) k = None"
      using that by (simp add: map_of_eq_None_iff)
    then show ?thesis
      using that by (simp add: map_add_def)
  qed
  ultimately show ?thesis
    using m d by auto
qed

theorem load_env_size_and_last_witness:
  "(\<exists>m. load_env (Readable dup_text) = Inr m \<and> card (dom m) = 2
       \<and> m (ascii ''A'') = Some (ascii ''3''))
   \<and> (\<exists>m. load_env (Readable cfg_text) = Inr m \<and> card (dom m) = 2)"
proof -
  from load_env_size_and_last [of cfg_text] obtain m' where
    "load_env (Readable cfg_text) = Inr m'"
    and "distinct (map fst (entries cfg_text)) \<longrightarrow> card (dom m') = length (entries cfg_text)"
    by blast
  moreover have "distinct (map fst (entries cfg_text))"
    by (simp add: entries_cfg ascii_def)
  ultimately have cfg: "\<exists>m. load_env (Readable cfg_text) = Inr m \<and> card (dom m) = 2"
    by (simp add: entries_cfg)
  from load_env_size_and_last [of dup_text] obtain m where
    m: "load_env (Readable dup_text) = Inr m"
    and c: "card (dom m) = card (fst ` set (entries dup_text))"
    and l: "\<forall>before k v after.
           entries dup_text = before @ (k, v) # after \<and> k \<notin> fst ` set after \<longrightarrow> m k = Some v"
    by blast
  have "card (fst ` set (entries dup_text)) = 2"
    by (simp add: entries_dup ascii_def card_insert_if)
  moreover have "entries dup_text =
      [(ascii ''A'', ascii ''1''), (ascii ''B'', ascii ''2'')] @ (ascii ''A'', ascii ''3'') # []
      \<and> ascii ''A'' \<notin> fst ` set []"
    by (simp add: entries_dup)
  then have "m (ascii ''A'') = Some (ascii ''3'')"
    using l by blast
  ultimately show ?thesis
    using m c cfg by auto
qed

section \<open>What the RPC caller returns\<close>

text \<open>
  Claim C1. \<open>call_rpc\<close> hands one request to the network. When the server
  answers, with a success status or with an error status that \<open>urlopen\<close> raises
  as \<open>HTTPError\<close>, it returns the pair of status code and body text. A transport
  failure leaves it as an exception, and nothing else does: when it raises, the
  outcome was no answered exchange.
\<close>

theorem call_rpc_result:
  "rpc_calls (snd (call_rpc net url key payload w)) = rpc_calls w @ [build_request url key payload]
   \<and> stdout (snd (call_rpc net url key payload w)) = stdout w
   \<and> (net (length (rpc_calls w)) (build_request url key payload) = Responded status (Some body)
        \<longrightarrow> fst (call_rpc net url key payload w) = Inr (status, body))
   \<and> (net (length (rpc_calls w)) (build_request url key payload) = HTTPError status (Some body)
        \<longrightarrow> fst (call_rpc net url key payload w) = Inr (status, body))
   \<and> (net (length (rpc_calls w)) (build_request url key payload) = Failed
        \<longrightarrow> fst (call_rpc net url key payload w) = Inl TransportError)
   \<and> (fst (call_rpc net url key payload w) = Inl e
        \<longrightarrow> e = TransportError
            \<and> (\<forall>st b. net (length (rpc_calls w)) (build_request url key payload)
                  \<notin> {Responded st (Some b), HTTPError st (Some b)}))"
  by (auto simp: call_rpc_def Let_def split: outcome.splits option.splits)

theorem call_rpc_result_witness:
  "fst (call_rpc net_guarded (ascii ''u'') (ascii ''k'') payload1 \<lparr>stdout = [], rpc_calls = []\<rparr>)
     = Inr (200, ascii ''ok'')
   \<and> fst (call_rpc net_undeployed (ascii ''u'') (ascii ''k'') payload1 \<lparr>stdout = [], rpc_calls = []\<rparr>)
     = Inr (404, ascii ''Could not find the function public.record_test_and_sync_stats(p)'')
   \<and> fst (call_rpc net_down (ascii ''u'') (ascii ''k'') payload1 \<lparr>stdout = [], rpc_calls = []\<rparr>)
     = Inl TransportError
   \<and> net_down 0 (build_request (ascii ''u'') (ascii ''k'') payload1) \<noteq> Responded 200 (Some [])"
proof -
  let ?w = "\<lparr>stdout = [], rpc_calls = []\<rparr>"
  let ?r = "build_request (ascii ''u'') (ascii ''k'') payload1"
  have "net_guarded (length (rpc_calls ?w)) ?r = Responded 200 (Some (ascii ''ok''))"
    by (simp add: net_guarded_def)
  then have 1: "fst (call_rpc net_guarded (ascii ''u'') (ascii ''k'') payload1 ?w) = Inr (200, ascii ''ok'')"
    using call_rpc_result [where net = net_guarded and w = ?w and url = "ascii ''u''"
        and key = "ascii ''k''" and payload = payload1 and status = 200 and body = "ascii ''ok''"]
    by blast
  have "net_undeployed (length (rpc_calls ?w)) ?r = HTTPError 404
      (Some (ascii ''Could not find the function public.record_test_and_sync_stats(p)''))"
    by (simp add: net_undeployed_def)
  then have 2: "fst (call_rpc net_undeployed (ascii ''u'') (ascii ''k'') payload1 ?w) =
      Inr (404, ascii ''Could not find the function public.record_test_and_sync_stats(p)'')"
    using call_rpc_result [where net = net_undeployed and w = ?w and url = "ascii ''u''"
        and key = "ascii ''k''" and payload = payload1 and status = 404
        and body = "ascii ''Could not find the function public.record_test_and_sync_stats(p)''"]
    by blast
  have "net_down (length (rpc_calls ?w)) ?r = Failed"
    by (simp add: net_down_def)
  then have 3: "fst (call_rpc net_down (ascii ''u'') (ascii ''k'') payload1 ?w) = Inl TransportError"
    using call_rpc_result [where net = net_down and w = ?w and url = "ascii ''u''"
        and key = "ascii ''k''" and payload = payload1]
    by blast
  then have "net_down (length (rpc_calls ?w)) ?r \<notin> {Responded 200 (Some []), HTTPError 200 (Some [])}"
    using call_rpc_result [where net = net_down and w = ?w and url = "ascii ''u''"
        and key = "ascii ''k''" and payload = payload1 and e = TransportError]
    by blast
  then have 4: "net_down 0 ?r \<noteq> Responded 200 (Some [])"
    by simp
  from 1 2 3 4 show ?thesis by blast
qed

section \<open>The precondition check of the driver\<close>

text \<open>
  Claim C2. When \<open>.env\<close> does not exist, \<open>main\<close> prints the missing-file
  message and returns. When the file is read and \<open>SUPABASE_URL\<close> or
  \<open>SUPABASE_ANON_KEY\<close> is absent from the mapping or mapped to the empty string,
  it prints the missing-key message and returns. In both runs no request is made,
  and the two messages differ.
\<close>

theorem main_config_missing:
  "main Absent net = (Inr (), \<lparr>stdout = [msg_no_env], rpc_calls = []\<rparr>)
   \<and> (\<exists>env. load_env (Readable content) = Inr env
        \<and> (env (ascii ''SUPABASE_URL'') = None \<or> env (ascii ''SUPABASE_URL'') = Some []
            \<or> env (ascii ''SUPABASE_ANON_KEY'') = None
            \<or> env (ascii ''SUPABASE_ANON_KEY'') = Some []
           \<longrightarrow> main (Readable content) net =
                 (Inr (), \<lparr>stdout = [msg_missing_key], rpc_calls = []\<rparr>)))
   \<and> msg_no_env \<noteq> msg_missing_key"
proof -
  let ?env = "map_of (rev (entries content))"
  have "main (Readable content) net = (Inr (), \<lparr>stdout = [msg_missing_key], rpc_calls = []\<rparr>)"
    if "?env (ascii ''SUPABASE_URL'') = None \<or> ?env (ascii ''SUPABASE_URL'') = Some []
        \<or> ?env (ascii ''SUPABASE_ANON_KEY'') = None \<or> ?env (ascii ''SUPABASE_ANON_KEY'') = Some []"
  proof -
    from that have "falsy (?env (ascii ''SUPABASE_URL'')) \<or> falsy (?env (ascii ''SUPABASE_ANON_KEY''))"
      by (auto simp: falsy_def)
    with load_env_Readable show ?thesis
      by (rule main_missing)
  qed
  then show ?thesis
    using load_env_Readable [of content] main_Absent [of net] msgs_distinct(1) by blast
qed

theorem main_config_missing_witness:
  "main Absent net_guarded = (Inr (), \<lparr>stdout = [msg_no_env], rpc_calls = []\<rparr>)
   \<and> main (Readable cfg_url_only) net_guarded =
       (Inr (), \<lparr>stdout = [msg_missing_key], rpc_calls = []\<rparr>)"
proof -
  from main_config_missing [of net_guarded cfg_url_only] obtain env where
    a: "main Absent net_guarded = (Inr (), \<lparr>stdout = [msg_no_env], rpc_calls = []\<rparr>)"
    and e: "load_env (Readable cfg_url_only) = Inr env"
    and m: "env (ascii ''SUPABASE_URL'') = None \<or> env (ascii ''SUPABASE_URL'') = Some []
            \<or> env (ascii ''SUPABASE_ANON_KEY'') = None
            \<or> env (ascii ''SUPABASE_ANON_KEY'') = Some []
           \<longrightarrow> main (Readable cfg_url_only) net_guarded =
                 (Inr (), \<lparr>stdout = [msg_missing_key], rpc_calls = []\<rparr>)"
    by blast
  from e have "env = map_of (rev (entries cfg_url_only))"
    by (simp add: load_env_Readable)
  then have "env (ascii ''SUPABASE_ANON_KEY'') = None"
    by (simp add: entries_url_only ascii_def)
  with a m show ?thesis by blast
qed

section \<open>The two checks of the driver\<close>

text \<open>
  Claim C4. With both keys set and an answer to the first request, \<open>main\<close>
  prints the header, the status line and the first 600 code points of the body,
  then the deployment-mismatch message when the body contains
  \<open>Could not find the function public.record_test_and_sync_stats\<close> and the
  success message otherwise. In both cases it goes on to the second check: it
  prints its header and makes the second request.
\<close>

theorem main_step1_verdict:
  assumes "load_env (Readable content) = Inr env"
    and "env (ascii ''SUPABASE_URL'') = Some url"
    and "env (ascii ''SUPABASE_ANON_KEY'') = Some key"
    and "url \<noteq> []" and "key \<noteq> []"
    and "net 0 (build_request url key payload1) = Responded status (Some body)
         \<or> net 0 (build_request url key payload1) = HTTPError status (Some body)"
  shows "take 5 (stdout (snd (main (Readable content) net))) =
           [msg_step1, http_line status, take 600 body,
            if contains phrase_not_found body then msg_not_deployed else msg_callable,
            msg_step2]
         \<and> rpc_calls (snd (main (Readable content) net)) =
             [build_request url key payload1, build_request url key payload2]
         \<and> msg_not_deployed \<noteq> msg_callable"
proof -
  have "completed (net 0 (build_request url key payload1)) = Some (status, body)"
    using assms(6) by (simp add: completed_cases)
  then show ?thesis
    using main_run [OF assms(1-5), of net] msgs_distinct(2)
    by (auto split: option.split)
qed

theorem main_step1_verdict_witness:
  "take 5 (stdout (snd (main (Readable cfg_text) net_undeployed))) =
     [msg_step1, http_line 404,
      ascii ''Could not find the function public.record_test_and_sync_stats(p)'',
      msg_not_deployed, msg_step2]
   \<and> rpc_calls (snd (main (Readable cfg_text) net_undeployed)) =
       [build_request (ascii ''u/'') (ascii ''k'') payload1,
        build_request (ascii ''u/'') (ascii ''k'') payload2]
   \<and> take 5 (stdout (snd (main (Readable cfg_text) net_guarded))) =
       [msg_step1, http_line 200, ascii ''ok'', msg_callable, msg_step2]"
proof -
  let ?b = "ascii ''Could not find the function public.record_test_and_sync_stats(p)''"
  have "net_undeployed 0 (build_request (ascii ''u/'') (ascii ''k'') payload1) =
          Responded 404 (Some ?b)
        \<or> net_undeployed 0 (build_request (ascii ''u/'') (ascii ''k'') payload1) =
          HTTPError 404 (Some ?b)"
    by (simp add: net_undeployed_def)
  note u = main_step1_verdict [where net = net_undeployed, OF load_env_cfg cfg_lookup cfg_nonempty this]
  have "net_guarded 0 (build_request (ascii ''u/'') (ascii ''k'') payload1) =
          Responded 200 (Some (ascii ''ok''))
        \<or> net_guarded 0 (build_request (ascii ''u/'') (ascii ''k'') payload1) =
          HTTPError 200 (Some (ascii ''ok''))"
    by (simp add: net_guarded_def)
  note g = main_step1_verdict [where net = net_guarded, OF load_env_cfg cfg_lookup cfg_nonempty this]
  have "take 600 ?b = ?b" "take 600 (ascii ''ok'') = ascii ''ok''"
    by (simp_all add: ascii_def)
  with u g show ?thesis
    by (simp add: contains_undeployed contains_guarded)
qed

text \<open>
  Claim C5. With an answer to the second request as well, \<open>main\<close> ends with the
  guard-is-active message when the body contains
  \<open>Cannot modify historical stats for date\<close>, and otherwise with the warning
  and its reason about anonymous calls. The warning is a third message: it is
  neither a success message nor the failure message.
\<close>

theorem main_step2_verdict:
  assumes "load_env (Readable content) = Inr env"
    and "env (ascii ''SUPABASE_URL'') = Some url"
    and "env (ascii ''SUPABASE_ANON_KEY'') = Some key"
    and "url \<noteq> []" and "key \<noteq> []"
    and "net 0 (build_request url key payload1) = Responded status (Some body)
         \<or> net 0 (build_request url key payload1) = HTTPError status (Some body)"
    and "net 1 (build_request url key payload2) = Responded status2 (Some body2)
         \<or> net 1 (build_request url key payload2) = HTTPError status2 (Some body2)"
  shows "main (Readable content) net =
           (Inr (),
            \<lparr>stdout =
               [msg_step1, http_line status, take 600 body,
                if contains phrase_not_found body then msg_not_deployed else msg_callable,
                msg_step2, http_line status2, take 600 body2]
               @ (if contains phrase_guard body2 then [msg_guard_active]
                  else [msg_inconclusive, msg_reason]),
             rpc_calls = [build_request url key payload1, build_request url key payload2]\<rparr>)
         \<and> msg_inconclusive \<notin> {msg_guard_active, msg_callable, msg_not_deployed}"
proof -
  have "completed (net 0 (build_request url key payload1)) = Some (status, body)"
    using assms(6) by (simp add: completed_cases)
  moreover have "completed (net 1 (build_request url key payload2)) = Some (status2, body2)"
    using assms(7) by (simp add: completed_cases)
  ultimately show ?thesis
    using main_run [OF assms(1-5), of net] msgs_distinct(3-5)
    by simp
qed

theorem main_step2_verdict_witness:
  "main (Readable cfg_text) net_guarded =
     (Inr (),
      \<lparr>stdout =
         [msg_step1, http_line 200, ascii ''ok'', msg_callable, msg_step2, http_line 400,
          ascii ''Cannot modify historical stats for date 2026-02-13'', msg_guard_active],
       rpc_calls =
         [build_request (ascii ''u/'') (ascii ''k'') payload1,
          build_request (ascii ''u/'') (ascii ''k'') payload2]\<rparr>)
   \<and> main (Readable cfg_text) net_undeployed =
     (Inr (),
      \<lparr>stdout =
         [msg_step1, http_line 404,
          ascii ''Could not find the function public.record_test_and_sync_stats(p)'',
          msg_not_deployed, msg_step2, http_line 401, ascii ''denied'',
          msg_inconclusive, msg_reason],
       rpc_calls =
         [build_request (ascii ''u/'') (ascii ''k'') payload1,
          build_request (ascii ''u/'') (ascii ''k'') payload2]\<rparr>)"
proof -
  let ?b = "ascii ''Could not find the function public.record_test_and_sync_stats(p)''"
  let ?c = "ascii ''Cannot modify historical stats for date 2026-02-13''"
  let ?r1 = "build_request (ascii ''u/'') (ascii ''k'') payload1"
  let ?r2 = "build_request (ascii ''u/'') (ascii ''k'') payload2"
  have g1: "net_guarded 0 ?r1 = Responded 200 (Some (ascii ''ok''))
        \<or> net_guarded 0 ?r1 = HTTPError 200 (Some (ascii ''ok''))"
    by (simp add: net_guarded_def)
  have g2: "net_guarded 1 ?r2 = Responded 400 (Some ?c) \<or> net_guarded 1 ?r2 = HTTPError 400 (Some ?c)"
    by (simp add: net_guarded_def)
  note g = main_step2_verdict [where net = net_guarded, OF load_env_cfg cfg_lookup cfg_nonempty g1 g2]
  have u1: "net_undeployed 0 ?r1 = Responded 404 (Some ?b) \<or> net_undeployed 0 ?r1 = HTTPError 404 (Some ?b)"
    by (simp add: net_undeployed_def)
  have u2: "net_undeployed 1 ?r2 = Responded 401 (Some (ascii ''denied''))
        \<or> net_undeployed 1 ?r2 = HTTPError 401 (Some (ascii ''denied''))"
    by (simp add: net_undeployed_def)
  note u = main_step2_verdict [where net = net_undeployed, OF load_env_cfg cfg_lookup cfg_nonempty u1 u2]
  have "take 600 ?b = ?b" "take 600 (ascii ''ok'') = ascii ''ok''" "take 600 ?c = ?c"
    "take 600 (ascii ''denied'') = ascii ''denied''"
    by (simp_all add: ascii_def)
  with u g show ?thesis
    by (simp add: contains_undeployed contains_guarded)
qed

section \<open>How the driver ends\<close>




end
